theory Spec2Isabelle
  imports Main "HOL-Library.AList"
begin

section \<open>The file storage service (src/index.js)\<close>

text \<open>
  The service is a set of Express request handlers over one directory on disk
  (\<^verbatim>\<open>uploads\<close>) and one process-wide \<^verbatim>\<open>Map\<close> from stored filename to metadata record
  (\<^verbatim>\<open>fileMetadata\<close>). Each handler is embedded as a function from the request and the
  state before it to the HTTP response and the state after it. Every \<^verbatim>\<open>throw\<close> of the
  JavaScript is a value of a sum type, and every \<^verbatim>\<open>catch\<close> a case on it.

  Conventions of the embedding:
  \<^item> a JavaScript string is a \<open>string\<close>, a list of 8-bit characters; the lower-casing and
    the white space of the model are those of ASCII;
  \<^item> a JavaScript number that the handlers compare (sizes, time values, the result of
    \<^verbatim>\<open>parseInt\<close>) is an \<open>int option\<close>, with \<open>None\<close> for \<^verbatim>\<open>NaN\<close>; doubles are exact on
    integers below \<open>2 ^ 53\<close>, which covers file sizes and millisecond time stamps;
  \<^item> \<^verbatim>\<open>undefined\<close> is \<open>None\<close> of an option type;
  \<^item> \<^verbatim>\<open>'uploads'\<close> (relative to the working directory) and
    \<^verbatim>\<open>path.join(__dirname, '..', 'uploads')\<close> are the same directory: the service is
    started from the project root; a file name is the name of a directory entry;
  \<^item> the logger calls have no effect on responses or state and are left out.
\<close>

subsection \<open>JavaScript values and built-ins\<close>

text \<open>Exceptions the handlers can meet; a system error carries its message.\<close>

datatype js_error = TypeError | SyntaxError | SystemError string

text \<open>
  JSON values, as \<^verbatim>\<open>JSON.parse\<close> and \<^verbatim>\<open>express.json()\<close> produce them. An object is the
  list of its properties in creation order. Number payloads are never inspected by the
  handlers.
\<close>

datatype json =
    JNull
  | JBool bool
  | JNum int
  | JStr string
  | JArr "json list"
  | JObj "(string \<times> json) list"

text \<open>
  Built-ins of the JavaScript engine that the handlers call and whose results depend on
  the engine: \<^verbatim>\<open>JSON.parse\<close> (\<open>None\<close> when it throws a \<^verbatim>\<open>SyntaxError\<close>),
  \<^verbatim>\<open>JSON.stringify\<close> on a defined value, and the time value of \<^verbatim>\<open>new Date(string)\<close>
  (\<open>None\<close> for an invalid date, whose time value is \<^verbatim>\<open>NaN\<close>). They are parameters of
  the model.
\<close>

record builtins =
  json_parse :: "string \<Rightarrow> json option"
  json_stringify :: "json \<Rightarrow> string"
  date_parse :: "string \<Rightarrow> int option"

text \<open>Truthiness of a value that is \<^verbatim>\<open>undefined\<close> or a string.\<close>

definition truthy :: "string option \<Rightarrow> bool" where
  "truthy v = (case v of None \<Rightarrow> False | Some s \<Rightarrow> s \<noteq> [])"

text \<open>\<^verbatim>\<open>a < b\<close> and \<^verbatim>\<open>a > b\<close> on numbers: false as soon as one side is \<^verbatim>\<open>NaN\<close>.\<close>

fun js_lt :: "int option \<Rightarrow> int option \<Rightarrow> bool" where
  "js_lt (Some a) (Some b) = (a < b)"
| "js_lt _ _ = False"

fun js_gt :: "int option \<Rightarrow> int option \<Rightarrow> bool" where
  "js_gt (Some a) (Some b) = (a > b)"
| "js_gt _ _ = False"

text \<open>\<^verbatim>\<open>String.prototype.toLowerCase\<close> and \<^verbatim>\<open>String.prototype.includes\<close>.\<close>

definition lower_char :: "char \<Rightarrow> char" where
  "lower_char c =
     (let n = (of_char c :: nat) in if 65 \<le> n \<and> n \<le> 90 then char_of (n + 32) else c)"

definition toLowerCase :: "string \<Rightarrow> string" where
  "toLowerCase s = map lower_char s"

fun includes_js :: "string \<Rightarrow> string \<Rightarrow> bool" where
  "includes_js [] q = (q = [])"
| "includes_js (c # cs) q = (take (length q) (c # cs) = q \<or> includes_js cs q)"

text \<open>The decimal rendering of a non-negative integer (\<^verbatim>\<open>Date.now() + '-' + ...\<close>, array indices).\<close>

fun show_nat :: "nat \<Rightarrow> string" where
  "show_nat n =
     (if n < 10 then [char_of (48 + n)]
      else show_nat (n div 10) @ [char_of (48 + n mod 10)])"

declare show_nat.simps [simp del]

text \<open>
  \<^verbatim>\<open>parseInt(string)\<close> without a radix: leading white space is skipped, then an optional
  sign, then an optional \<^verbatim>\<open>0x\<close>/\<^verbatim>\<open>0X\<close> that selects radix 16; the longest run of digits of
  the radix is the value, and an empty run gives \<^verbatim>\<open>NaN\<close>.
\<close>

definition is_white_space :: "char \<Rightarrow> bool" where
  "is_white_space c = ((of_char c :: nat) \<in> {9, 10, 11, 12, 13, 32})"

definition digit_of :: "char \<Rightarrow> nat option" where
  "digit_of c =
     (let n = (of_char c :: nat) in
      if 48 \<le> n \<and> n \<le> 57 then Some (n - 48)
      else if 97 \<le> n \<and> n \<le> 122 then Some (n - 87)
      else if 65 \<le> n \<and> n \<le> 90 then Some (n - 55)
      else None)"

definition radix_digit :: "nat \<Rightarrow> char \<Rightarrow> nat option" where
  "radix_digit R c =
     (case digit_of c of None \<Rightarrow> None | Some d \<Rightarrow> if d < R then Some d else None)"

definition digits_value :: "nat \<Rightarrow> string \<Rightarrow> nat" where
  "digits_value R Z =
     foldl (\<lambda>a c. a * R + (case radix_digit R c of None \<Rightarrow> 0 | Some d \<Rightarrow> d)) 0 Z"

definition parseInt :: "string \<Rightarrow> int option" where
  "parseInt str =
     (let S = dropWhile is_white_space str;
          neg = (take 1 S = ''-'');
          S1 = (if take 1 S = ''-'' \<or> take 1 S = ''+'' then drop 1 S else S);
          hex = (take 2 S1 = ''0x'' \<or> take 2 S1 = ''0X'');
          R = (if hex then 16 else 10);
          S2 = (if hex then drop 2 S1 else S1);
          Z = takeWhile (\<lambda>c. radix_digit R c \<noteq> None) S2
      in if Z = [] then None
         else Some (if neg then - int (digits_value R Z) else int (digits_value R Z)))"


text \<open>
  The own enumerable properties that an object spread \<^verbatim>\<open>{...v}\<close> copies: those of an
  object, the indexed elements of an array, the indexed characters of a string, and
  nothing for \<^verbatim>\<open>null\<close>, a boolean or a number.
\<close>

fun own_props :: "json \<Rightarrow> (string \<times> json) list" where
  "own_props (JObj kvs) = kvs"
| "own_props (JArr xs) = zip (map show_nat [0..<length xs]) xs"
| "own_props (JStr s) = zip (map show_nat [0..<length s]) (map (\<lambda>c. JStr [c]) s)"
| "own_props _ = []"

text \<open>
  Copying properties into an object under construction: a key that is already there
  keeps its place and takes the new value, a new key goes last.
\<close>

definition assign_props :: "(string \<times> json) list \<Rightarrow> (string \<times> json) list \<Rightarrow> (string \<times> json) list" where
  "assign_props target src = fold (\<lambda>(k, v). AList.update k v) src target"

text \<open>\<^verbatim>\<open>{...a, ...b}\<close>\<close>

definition spread2 :: "json \<Rightarrow> json \<Rightarrow> json" where
  "spread2 a b = JObj (assign_props (assign_props [] (own_props a)) (own_props b))"

text \<open>
  \<^verbatim>\<open>path.extname\<close> on a POSIX path: from the last dot of the last path segment to its
  end; empty when that segment has no dot or only a leading one.
\<close>

definition basename :: "string \<Rightarrow> string" where
  "basename p = rev (takeWhile (\<lambda>c. c \<noteq> CHR ''/'') (rev p))"

definition extname :: "string \<Rightarrow> string" where
  "extname p =
     (let b = basename p; e = rev (takeWhile (\<lambda>c. c \<noteq> CHR ''.'') (rev b))
      in if CHR ''.'' \<notin> set b \<or> length e + 1 = length b then [] else CHR ''.'' # e)"

subsection \<open>State: the uploads directory and the metadata store\<close>

text \<open>What \<^verbatim>\<open>fs.statSync\<close> reports of a file; the times are milliseconds since the epoch.\<close>

record stats =
  st_size :: int
  birthtime :: int
  mtime :: int

text \<open>
  The record that \<^verbatim>\<open>getFileMetadata\<close> builds, and the metadata record of the store, which
  spreads it and adds two fields.
\<close>

record file_info =
  size_m :: int
  created :: int
  modified :: int
  type_m :: string

record metadata = file_info +
  originalName :: string
  customMetadata :: json

text \<open>
  The uploads directory is absent (\<open>None\<close>) or holds its entries in the order in which
  \<^verbatim>\<open>fs.readdirSync\<close> lists them. \<^verbatim>\<open>fileMetadata\<close> is the in-memory \<^verbatim>\<open>Map\<close>.
\<close>

record state =
  uploads :: "(string \<times> stats) list option"
  fileMetadata :: "string \<rightharpoonup> metadata"

text \<open>
  The file system calls that can throw. A request is handled under a choice of which of
  them fail, each with the message of its error.
\<close>

record faults =
  mkdir_error :: "string option"
  write_error :: "string option"
  stat_error :: "string option"
  readdir_error :: "string option"
  unlink_error :: "string option"

definition no_faults :: faults where
  "no_faults = \<lparr>mkdir_error = None, write_error = None, stat_error = None,
     readdir_error = None, unlink_error = None\<rparr>"

text \<open>\<^verbatim>\<open>fs.existsSync\<close> of the uploads directory and of a file in it; it never throws.\<close>

definition dir_exists :: "state \<Rightarrow> bool" where
  "dir_exists s = (uploads s \<noteq> None)"

definition file_exists :: "state \<Rightarrow> string \<Rightarrow> bool" where
  "file_exists s filename =
     (case uploads s of None \<Rightarrow> False | Some d \<Rightarrow> map_of d filename \<noteq> None)"

text \<open>\<^verbatim>\<open>fs.statSync\<close> of a path \<^verbatim>\<open>uploads/<name>\<close>.\<close>

definition statSync :: "faults \<Rightarrow> state \<Rightarrow> string \<Rightarrow> js_error + stats" where
  "statSync f s filepath =
     (case stat_error f of
        Some msg \<Rightarrow> Inl (SystemError msg)
      | None \<Rightarrow>
          (case uploads s of
             None \<Rightarrow> Inl (SystemError ''ENOENT'')
           | Some d \<Rightarrow>
               if take 8 filepath \<noteq> ''uploads/'' then Inl (SystemError ''ENOENT'')
               else (case map_of d (drop 8 filepath) of
                       None \<Rightarrow> Inl (SystemError ''ENOENT'')
                     | Some st \<Rightarrow> Inr st)))"

text \<open>
  \<^verbatim>\<open>
  const getFileMetadata = (filepath) => {
      const stats = fs.statSync(filepath);
      return { size: stats.size, created: stats.birthtime, modified: stats.mtime,
               type: path.extname(filepath).slice(1) || 'unknown' };
  };
  \<close>
\<close>

definition getFileMetadata :: "faults \<Rightarrow> state \<Rightarrow> string \<Rightarrow> js_error + file_info" where
  "getFileMetadata f s filepath =
     (case statSync f s filepath of
        Inl e \<Rightarrow> Inl e
      | Inr st \<Rightarrow>
          Inr \<lparr>size_m = st_size st, created = birthtime st, modified = mtime st,
               type_m = (if drop 1 (extname filepath) = [] then ''unknown''
                         else drop 1 (extname filepath))\<rparr>)"

subsection \<open>Responses\<close>

text \<open>
  One entry of a listing, \<^verbatim>\<open>{ filename, ...fileMetadata.get(filename) }\<close>: the metadata
  fields are there when the store has a record for the name, and absent otherwise.
\<close>

record listed =
  filename :: string
  meta :: "metadata option"

datatype body =
    Error string
  | Uploaded string string metadata
  | Files "listed list"
  | Metadata metadata
  | Message string
  | Download string
  | Health string nat
  | Unhealthy string
  | ExpressError

text \<open>
  \<open>Error e\<close> is \<^verbatim>\<open>{ error: e }\<close>; \<open>Uploaded m fn md\<close> is
  \<^verbatim>\<open>{ message: m, filename: fn, metadata: md }\<close>; \<open>Files\<close> and \<open>Metadata\<close> are the
  JSON of a listing and of a record; \<open>Message m\<close> is \<^verbatim>\<open>{ message: m }\<close>; \<open>Download p\<close>
  is \<^verbatim>\<open>res.download\<close> of the file; \<open>Health st t\<close> is \<^verbatim>\<open>{ status: st, timestamp }\<close> with the
  ISO rendering of the instant \<open>t\<close>; \<open>Unhealthy m\<close> is
  \<^verbatim>\<open>{ status: 'unhealthy', error: m }\<close>; \<open>ExpressError\<close> is the page of Express's own
  error handler, which is not JSON.
\<close>

record response =
  status :: nat
  body :: body

text \<open>\<^verbatim>\<open>res.json(b)\<close> answers with status 200, \<^verbatim>\<open>res.status(c).json(b)\<close> with \<open>c\<close>.\<close>

definition json_res :: "body \<Rightarrow> response" where
  "json_res b = \<lparr>status = 200, body = b\<rparr>"

definition status_json :: "nat \<Rightarrow> body \<Rightarrow> response" where
  "status_json c b = \<lparr>status = c, body = b\<rparr>"

text \<open>\<^verbatim>\<open>filename => ({ filename, ...fileMetadata.get(filename) })\<close>\<close>

definition with_metadata :: "state \<Rightarrow> string \<Rightarrow> listed" where
  "with_metadata s name = \<lparr>filename = name, meta = fileMetadata s name\<rparr>"

text \<open>\<^verbatim>\<open>fs.readdirSync(uploadDir)\<close>, called once the directory is known to exist.\<close>

definition readdirSync :: "faults \<Rightarrow> (string \<times> stats) list \<Rightarrow> js_error + string list" where
  "readdirSync f d =
     (case readdir_error f of Some msg \<Rightarrow> Inl (SystemError msg) | None \<Rightarrow> Inr (map fst d))"

subsection \<open>POST /upload\<close>

text \<open>
  A file part of the multipart request: the name the client gave the file and what the
  file system records of its bytes once they are written.
\<close>

record upload_file =
  originalname :: string
  written :: stats

text \<open>
  The file parts of a request, as \<^verbatim>\<open>upload.single('file')\<close> meets them: none; one part
  of field \<^verbatim>\<open>file\<close>; or a part that it refuses (one under another field name, or one
  more part of field \<^verbatim>\<open>file\<close>), which comes after the part of field \<^verbatim>\<open>file\<close> given
  with it, if any. The request also has the text field \<^verbatim>\<open>metadata\<close>, or not.
\<close>

datatype file_parts = NoFile | FileField upload_file | Unexpected "upload_file option"

record upload_request =
  payload :: file_parts
  metadata_field :: "string option"

text \<open>The part of field \<^verbatim>\<open>file\<close> of a request that multer accepts.\<close>

definition file_part :: "upload_request \<Rightarrow> upload_file option" where
  "file_part req = (case payload req of FileField part \<Rightarrow> Some part | _ \<Rightarrow> None)"

text \<open>\<^verbatim>\<open>req.file\<close> as multer leaves it.\<close>

record multer_file =
  file_path :: string
  file_filename :: string
  file_originalname :: string

text \<open>
  \<^verbatim>\<open>multer.diskStorage\<close>: \<^verbatim>\<open>destination\<close> makes the directory when it is missing,
  \<^verbatim>\<open>filename\<close> is \<^verbatim>\<open>Date.now() + '-' + file.originalname\<close>, and the bytes are written
  under that name (over a file of the same name, if there is one).
\<close>

definition diskStorage ::
    "faults \<Rightarrow> nat \<Rightarrow> upload_file \<Rightarrow> state \<Rightarrow> (js_error + multer_file) \<times> state" where
  "diskStorage f now part s =
     (case (case uploads s of
              Some d \<Rightarrow> Inr d
            | None \<Rightarrow> (case mkdir_error f of Some msg \<Rightarrow> Inl (SystemError msg) | None \<Rightarrow> Inr [])) of
        Inl e \<Rightarrow> (Inl e, s)
      | Inr d \<Rightarrow>
          (let name = show_nat now @ ''-'' @ originalname part in
           case write_error f of
             Some msg \<Rightarrow> (Inl (SystemError msg), s\<lparr>uploads := Some d\<rparr>)
           | None \<Rightarrow>
               (Inr \<lparr>file_path = ''uploads/'' @ name, file_filename = name,
                     file_originalname = originalname part\<rparr>,
                s\<lparr>uploads := Some (AList.update name (written part) d)\<rparr>)))"

text \<open>
  The handler proper, lines 62 to 86. The object literal evaluates
  \<^verbatim>\<open>getFileMetadata(req.file.path)\<close> first and
  \<^verbatim>\<open>req.body.metadata ? JSON.parse(req.body.metadata) : {}\<close> last; either can throw
  into the \<^verbatim>\<open>catch\<close>, before \<^verbatim>\<open>fileMetadata.set\<close> is reached.
\<close>

definition upload_handler ::
    "builtins \<Rightarrow> faults \<Rightarrow> multer_file option \<Rightarrow> string option \<Rightarrow> state \<Rightarrow> response \<times> state" where
  "upload_handler B f req_file req_body_metadata s =
     (case req_file of
        None \<Rightarrow> (status_json 400 (Error ''No file uploaded''), s)
      | Some file \<Rightarrow>
          (case getFileMetadata f s (file_path file) of
             Inl e \<Rightarrow> (status_json 500 (Error ''Error uploading file''), s)
           | Inr info \<Rightarrow>
               (case (if truthy req_body_metadata
                      then (case json_parse B (the req_body_metadata) of
                              None \<Rightarrow> Inl SyntaxError | Some v \<Rightarrow> Inr v)
                      else Inr (JObj [])) of
                  Inl e \<Rightarrow> (status_json 500 (Error ''Error uploading file''), s)
                | Inr custom \<Rightarrow>
                    (let metadata = file_info.extend info
                           \<lparr>originalName = file_originalname file, customMetadata = custom\<rparr>
                     in (json_res (Uploaded ''File uploaded successfully'' (file_filename file) metadata),
                         s\<lparr>fileMetadata := (fileMetadata s)(file_filename file \<mapsto> metadata)\<rparr>)))))"

text \<open>
  The route: \<^verbatim>\<open>upload.single('file')\<close>, then the handler. When multer fails, because
  the storage failed or because it refuses a file part, it removes the file it has
  stored for the request and passes its error to Express; the handler does not run.
\<close>

definition upload :: "builtins \<Rightarrow> faults \<Rightarrow> nat \<Rightarrow> upload_request \<Rightarrow> state \<Rightarrow> response \<times> state" where
  "upload B f now req s =
     (case payload req of
        NoFile \<Rightarrow> upload_handler B f None (metadata_field req) s
      | FileField part \<Rightarrow>
          (case diskStorage f now part s of
             (Inl e, s1) \<Rightarrow> (\<lparr>status = 500, body = ExpressError\<rparr>, s1)
           | (Inr file, s1) \<Rightarrow> upload_handler B f (Some file) (metadata_field req) s1)
      | Unexpected None \<Rightarrow> (\<lparr>status = 500, body = ExpressError\<rparr>, s)
      | Unexpected (Some part) \<Rightarrow>
          (case diskStorage f now part s of
             (Inl e, s1) \<Rightarrow> (\<lparr>status = 500, body = ExpressError\<rparr>, s1)
           | (Inr file, s1) \<Rightarrow>
               (\<lparr>status = 500, body = ExpressError\<rparr>,
                s1\<lparr>uploads := map_option (AList.delete (file_filename file)) (uploads s1)\<rparr>)))"

subsection \<open>GET /files\<close>

definition list_files :: "faults \<Rightarrow> state \<Rightarrow> response \<times> state" where
  "list_files f s =
     (case uploads s of
        None \<Rightarrow> (json_res (Files []), s)
      | Some d \<Rightarrow>
          (case readdirSync f d of
             Inl e \<Rightarrow> (status_json 500 (Error ''Error listing files''), s)
           | Inr files \<Rightarrow> (json_res (Files (map (with_metadata s) files)), s)))"

subsection \<open>GET /files/search\<close>

text \<open>
  The query parameters, each absent or a string:
  \<^verbatim>\<open>const { query, type, minSize, maxSize, dateFrom, dateTo } = req.query\<close>.
\<close>

record search_query =
  query :: "string option"
  type :: "string option"
  minSize :: "string option"
  maxSize :: "string option"
  dateFrom :: "string option"
  dateTo :: "string option"

text \<open>
  The six conditions of the filter callback, one per \<^verbatim>\<open>if\<close>, each true when its
  \<^verbatim>\<open>return false\<close> is taken.

  Lines 126 and 127. For a file without a record, \<^verbatim>\<open>file.customMetadata\<close> is
  \<^verbatim>\<open>undefined\<close>, \<^verbatim>\<open>JSON.stringify(undefined)\<close> is \<^verbatim>\<open>undefined\<close>, and calling
  \<^verbatim>\<open>toLowerCase\<close> on it throws a \<^verbatim>\<open>TypeError\<close>; the \<^verbatim>\<open>&&\<close> reaches that call only
  when the query is non-empty and the file name does not contain it.
\<close>

definition query_excludes :: "builtins \<Rightarrow> string option \<Rightarrow> listed \<Rightarrow> js_error + bool" where
  "query_excludes B q file =
     (if \<not> truthy q then Inr False
      else if includes_js (toLowerCase (filename file)) (toLowerCase (the q)) then Inr False
      else (case meta file of
              None \<Rightarrow> Inl TypeError
            | Some m \<Rightarrow>
                Inr (\<not> includes_js (toLowerCase (json_stringify B (customMetadata m)))
                                   (toLowerCase (the q)))))"

text \<open>Line 132: \<^verbatim>\<open>type && file.type !== type\<close>\<close>

definition type_excludes :: "string option \<Rightarrow> listed \<Rightarrow> bool" where
  "type_excludes t file = (truthy t \<and> map_option type_m (meta file) \<noteq> t)"

text \<open>
  Lines 137 and 140: \<^verbatim>\<open>minSize && file.size < parseInt(minSize)\<close> and
  \<^verbatim>\<open>maxSize && file.size > parseInt(maxSize)\<close>; an absent \<^verbatim>\<open>file.size\<close> converts to
  \<^verbatim>\<open>NaN\<close>.
\<close>

definition minSize_excludes :: "string option \<Rightarrow> listed \<Rightarrow> bool" where
  "minSize_excludes lo file =
     (truthy lo \<and> js_lt (map_option size_m (meta file)) (parseInt (the lo)))"

definition maxSize_excludes :: "string option \<Rightarrow> listed \<Rightarrow> bool" where
  "maxSize_excludes hi file =
     (truthy hi \<and> js_gt (map_option size_m (meta file)) (parseInt (the hi)))"

text \<open>
  Lines 145 and 148: \<^verbatim>\<open>dateFrom && new Date(file.created) < new Date(dateFrom)\<close> and
  \<^verbatim>\<open>dateTo && new Date(file.created) > new Date(dateTo)\<close>. The comparison is on the
  time values; \<^verbatim>\<open>new Date(undefined)\<close> is an invalid date.
\<close>

definition dateFrom_excludes :: "builtins \<Rightarrow> string option \<Rightarrow> listed \<Rightarrow> bool" where
  "dateFrom_excludes B d file =
     (truthy d \<and> js_lt (map_option created (meta file)) (date_parse B (the d)))"

definition dateTo_excludes :: "builtins \<Rightarrow> string option \<Rightarrow> listed \<Rightarrow> bool" where
  "dateTo_excludes B d file =
     (truthy d \<and> js_gt (map_option created (meta file)) (date_parse B (the d)))"

text \<open>The callback of \<^verbatim>\<open>.filter\<close>, lines 124 to 153.\<close>

definition search_filter :: "builtins \<Rightarrow> search_query \<Rightarrow> listed \<Rightarrow> js_error + bool" where
  "search_filter B p file =
     (case query_excludes B (query p) file of
        Inl e \<Rightarrow> Inl e
      | Inr qx \<Rightarrow>
          Inr (if qx then False
               else if type_excludes (type p) file then False
               else if minSize_excludes (minSize p) file then False
               else if maxSize_excludes (maxSize p) file then False
               else if dateFrom_excludes B (dateFrom p) file then False
               else if dateTo_excludes B (dateTo p) file then False
               else True))"

text \<open>\<^verbatim>\<open>Array.prototype.filter\<close> with a callback that can throw: the first throw ends it.\<close>

fun filter_js :: "('a \<Rightarrow> js_error + bool) \<Rightarrow> 'a list \<Rightarrow> js_error + 'a list" where
  "filter_js cb [] = Inr []"
| "filter_js cb (x # xs) =
     (case cb x of
        Inl e \<Rightarrow> Inl e
      | Inr keep \<Rightarrow>
          (case filter_js cb xs of
             Inl e \<Rightarrow> Inl e
           | Inr ys \<Rightarrow> Inr (if keep then x # ys else ys)))"

definition search :: "builtins \<Rightarrow> faults \<Rightarrow> search_query \<Rightarrow> state \<Rightarrow> response \<times> state" where
  "search B f p s =
     (case uploads s of
        None \<Rightarrow> (json_res (Files []), s)
      | Some d \<Rightarrow>
          (case readdirSync f d of
             Inl e \<Rightarrow> (status_json 500 (Error ''Error searching files''), s)
           | Inr files \<Rightarrow>
               (case filter_js (search_filter B p) (map (with_metadata s) files) of
                  Inl e \<Rightarrow> (status_json 500 (Error ''Error searching files''), s)
                | Inr results \<Rightarrow> (json_res (Files results), s))))"

subsection \<open>GET and PATCH /files/:filename/metadata\<close>

definition get_metadata :: "string \<Rightarrow> state \<Rightarrow> response \<times> state" where
  "get_metadata name s =
     (if \<not> file_exists s name then (status_json 404 (Error ''File not found''), s)
      else (case fileMetadata s name of
              None \<Rightarrow> (status_json 404 (Error ''File metadata not found''), s)
            | Some metadata \<Rightarrow> (json_res (Metadata metadata), s)))"

text \<open>
  \<^verbatim>\<open>
  const updatedMetadata = {
      ...currentMetadata,
      customMetadata: { ...currentMetadata.customMetadata, ...req.body }
  };
  fileMetadata.set(filename, updatedMetadata);
  \<close>
  \<^verbatim>\<open>req.body\<close> is what \<^verbatim>\<open>express.json()\<close> parsed, an object or an array, or the empty
  object when the request has no JSON body.
\<close>

definition patch_metadata :: "string \<Rightarrow> json \<Rightarrow> state \<Rightarrow> response \<times> state" where
  "patch_metadata name req_body s =
     (if \<not> file_exists s name then (status_json 404 (Error ''File not found''), s)
      else (case fileMetadata s name of
              None \<Rightarrow> (status_json 404 (Error ''File metadata not found''), s)
            | Some currentMetadata \<Rightarrow>
                (let updatedMetadata = currentMetadata
                       \<lparr>customMetadata := spread2 (customMetadata currentMetadata) req_body\<rparr>
                 in (json_res (Metadata updatedMetadata),
                     s\<lparr>fileMetadata := (fileMetadata s)(name \<mapsto> updatedMetadata)\<rparr>))))"

subsection \<open>GET /download/:filename\<close>

definition download :: "string \<Rightarrow> state \<Rightarrow> response \<times> state" where
  "download name s =
     (if \<not> file_exists s name then (status_json 404 (Error ''File not found''), s)
      else (\<lparr>status = 200, body = Download name\<rparr>, s))"

subsection \<open>DELETE /files/:filename\<close>

text \<open>\<^verbatim>\<open>fs.unlinkSync\<close> of an existing entry, then \<^verbatim>\<open>fileMetadata.delete\<close>.\<close>

definition delete_file :: "faults \<Rightarrow> string \<Rightarrow> state \<Rightarrow> response \<times> state" where
  "delete_file f name s =
     (if \<not> file_exists s name then (status_json 404 (Error ''File not found''), s)
      else (case unlink_error f of
              Some msg \<Rightarrow> (status_json 500 (Error ''Error deleting file''), s)
            | None \<Rightarrow>
                (json_res (Message ''File deleted successfully''),
                 s\<lparr>uploads := map_option (AList.delete name) (uploads s),
                   fileMetadata := (fileMetadata s)(name := None)\<rparr>)))"

subsection \<open>GET /health\<close>

text \<open>
  \<^verbatim>\<open>
  if (!fs.existsSync(uploadDir)) { fs.mkdirSync(uploadDir, { recursive: true }); }
  res.status(200).json({ status: 'healthy', timestamp: new Date().toISOString() });
  \<close>
  with \<^verbatim>\<open>res.status(500).json({ status: 'unhealthy', error: error.message })\<close> in the
  \<^verbatim>\<open>catch\<close>. \<open>now\<close> is the clock at the request.
\<close>

definition health :: "faults \<Rightarrow> nat \<Rightarrow> state \<Rightarrow> response \<times> state" where
  "health f now s =
     (if \<not> dir_exists s then
        (case mkdir_error f of
           Some msg \<Rightarrow> (status_json 500 (Unhealthy msg), s)
         | None \<Rightarrow> (status_json 200 (Health ''healthy'' now), s\<lparr>uploads := Some []\<rparr>))
      else (status_json 200 (Health ''healthy'' now), s))"

subsection \<open>A size bound as the number its literal denotes\<close>



subsection \<open>Sample values\<close>

text \<open>
  A stand-in for the engine's built-ins on the strings of the examples below:
  \<^verbatim>\<open>JSON.parse\<close> of two object literals and a \<^verbatim>\<open>SyntaxError\<close> for anything else, a
  serialiser for values whose strings need no escaping, and \<^verbatim>\<open>Date.parse\<close> of one ISO
  date and \<^verbatim>\<open>NaN\<close> for anything else.
\<close>

fun join_commas :: "string list \<Rightarrow> string" where
  "join_commas [] = []"
| "join_commas [x] = x"
| "join_commas (x # y # ys) = x @ CHR '','' # join_commas (y # ys)"

fun sample_stringify :: "json \<Rightarrow> string" where
  "sample_stringify JNull = ''null''"
| "sample_stringify (JBool b) = (if b then ''true'' else ''false'')"
| "sample_stringify (JNum n) = (if n < 0 then CHR ''-'' # show_nat (nat (- n)) else show_nat (nat n))"
| "sample_stringify (JStr s) = CHR 0x22 # s @ [CHR 0x22]"
| "sample_stringify (JArr xs) = CHR ''['' # join_commas (map sample_stringify xs) @ '']''"
| "sample_stringify (JObj kvs) =
     CHR ''{'' # join_commas (map (\<lambda>kv. CHR 0x22 # fst kv @ [CHR 0x22, CHR '':'']
                                           @ sample_stringify (snd kv)) kvs) @ ''}''"

definition sample_builtins :: builtins where
  \<open>sample_builtins =
     \<lparr>json_parse = (\<lambda>s. if s = ''{"tag":"x"}'' then Some (JObj [(''tag'', JStr ''x'')])
                         else if s = ''{}'' then Some (JObj [])
                         else None),
      json_stringify = sample_stringify,
      date_parse = (\<lambda>s. if s = ''1970-01-01'' then Some 0 else None)\<rparr>\<close>

definition sample_stats :: stats where
  "sample_stats = \<lparr>st_size = 3, birthtime = 1000, mtime = 1000\<rparr>"

definition sample_metadata :: metadata where
  "sample_metadata =
     \<lparr>size_m = 3, created = 1000, modified = 1000, type_m = ''txt'',
      originalName = ''a.txt'', customMetadata = JObj [(''tag'', JStr ''x'')]\<rparr>"

definition sample_part :: upload_file where
  "sample_part = \<lparr>originalname = ''a.txt'', written = sample_stats\<rparr>"

definition sample_file :: multer_file where
  "sample_file = \<lparr>file_path = ''uploads/5-a.txt'', file_filename = ''5-a.txt'',
     file_originalname = ''a.txt''\<rparr>"

definition tagged_upload :: upload_request where
  \<open>tagged_upload = \<lparr>payload = FileField sample_part, metadata_field = Some ''{"tag":"x"}''\<rparr>\<close>

definition malformed_upload :: upload_request where
  "malformed_upload = \<lparr>payload = FileField sample_part, metadata_field = Some ''{oops''\<rparr>"



text \<open>An empty store, a store with one uploaded file, and a directory with one orphan.\<close>

definition empty_state :: state where
  "empty_state = \<lparr>uploads = None, fileMetadata = Map.empty\<rparr>"

definition one_file_state :: state where
  "one_file_state =
     \<lparr>uploads = Some [(''5-a.txt'', sample_stats)],
      fileMetadata = [''5-a.txt'' \<mapsto> sample_metadata]\<rparr>"

definition orphan_state :: state where
  "orphan_state = \<lparr>uploads = Some [(''5-a.txt'', sample_stats)], fileMetadata = Map.empty\<rparr>"

definition no_query :: search_query where
  "no_query = \<lparr>query = None, type = None, minSize = None, maxSize = None,
     dateFrom = None, dateTo = None\<rparr>"

section \<open>Properties\<close>

subsection \<open>Comparisons with NaN\<close>

lemma js_lt_None [simp]: "js_lt x None = False"
  by (cases x) simp_all

lemma js_gt_None [simp]: "js_gt x None = False"
  by (cases x) simp_all

subsection \<open>Health\<close>

text \<open>
  Claim C7. Whenever directory creation succeeds (or is not needed, the directory being
  there already), a health request answers 200 with the status \<^verbatim>\<open>healthy\<close> and the
  current time stamp, and the uploads directory exists afterwards, also when it did not
  before. The answer is 500 only when the directory was missing and creating it failed.
\<close>

theorem health_ok:
  "(dir_exists s \<or> mkdir_error f = None \<longrightarrow>
      fst (health f now s) = \<lparr>status = 200, body = Health ''healthy'' now\<rparr> \<and>
      dir_exists (snd (health f now s)))
   \<and> (status (fst (health f now s)) = 500 \<longrightarrow> \<not> dir_exists s \<and> mkdir_error f \<noteq> None)"
  by (auto simp: health_def dir_exists_def status_json_def split: option.splits)

theorem health_ok_witness:
  "(dir_exists empty_state \<or> mkdir_error no_faults = None) \<and>
   \<not> dir_exists empty_state \<and>
   fst (health no_faults 7 empty_state) = \<lparr>status = 200, body = Health ''healthy'' 7\<rparr> \<and>
   dir_exists (snd (health no_faults 7 empty_state)) \<and>
   status (fst (health (no_faults\<lparr>mkdir_error := Some ''EACCES''\<rparr>) 7 empty_state)) = 500 \<and>
   mkdir_error (no_faults\<lparr>mkdir_error := Some ''EACCES''\<rparr>) \<noteq> None"
  using health_ok [of empty_state no_faults 7]
    health_ok [of empty_state "no_faults\<lparr>mkdir_error := Some ''EACCES''\<rparr>" 7]
  by (simp add: empty_state_def no_faults_def dir_exists_def health_def status_json_def)

subsection \<open>Existence checks\<close>

lemma file_exists_after_unlink:
  "\<not> file_exists (s\<lparr>uploads := map_option (AList.delete name) (uploads s), fileMetadata := m\<rparr>) name"
  by (cases "uploads s") (simp_all add: file_exists_def delete_conv')

text \<open>
  Claim C6. After a delete request that answered 200, a metadata request and a download
  request for the same name both answer 404 \<^verbatim>\<open>File not found\<close>. More generally, each of
  the four handlers that target one file (get metadata, update metadata, download,
  delete) checks existence first: when the file is absent it answers 404
  \<^verbatim>\<open>File not found\<close> and changes nothing.
\<close>

theorem delete_then_not_found:
  "(delete_file f name s = (r, s') \<and> status r = 200 \<longrightarrow>
      get_metadata name s' = (\<lparr>status = 404, body = Error ''File not found''\<rparr>, s') \<and>
      download name s' = (\<lparr>status = 404, body = Error ''File not found''\<rparr>, s'))
   \<and> (\<not> file_exists s name \<longrightarrow>
      get_metadata name s = (\<lparr>status = 404, body = Error ''File not found''\<rparr>, s) \<and>
      patch_metadata name b s = (\<lparr>status = 404, body = Error ''File not found''\<rparr>, s) \<and>
      download name s = (\<lparr>status = 404, body = Error ''File not found''\<rparr>, s) \<and>
      delete_file f name s = (\<lparr>status = 404, body = Error ''File not found''\<rparr>, s))"
proof (intro conjI impI)
  assume a: "delete_file f name s = (r, s') \<and> status r = 200"
  then have s': "s' = s\<lparr>uploads := map_option (AList.delete name) (uploads s),
      fileMetadata := (fileMetadata s)(name := None)\<rparr>"
    by (auto simp: delete_file_def status_json_def json_res_def split: if_splits option.splits)
  have "\<not> file_exists s' name"
    unfolding s' by (rule file_exists_after_unlink)
  then show "get_metadata name s' = (\<lparr>status = 404, body = Error ''File not found''\<rparr>, s')"
    and "download name s' = (\<lparr>status = 404, body = Error ''File not found''\<rparr>, s')"
    by (simp_all add: get_metadata_def download_def status_json_def)
next
  assume "\<not> file_exists s name"
  then show "get_metadata name s = (\<lparr>status = 404, body = Error ''File not found''\<rparr>, s)"
    and "patch_metadata name b s = (\<lparr>status = 404, body = Error ''File not found''\<rparr>, s)"
    and "download name s = (\<lparr>status = 404, body = Error ''File not found''\<rparr>, s)"
    and "delete_file f name s = (\<lparr>status = 404, body = Error ''File not found''\<rparr>, s)"
    by (simp_all add: get_metadata_def patch_metadata_def download_def delete_file_def status_json_def)
qed

theorem delete_then_not_found_witness:
  "file_exists one_file_state ''5-a.txt'' \<and>
   status (fst (delete_file no_faults ''5-a.txt'' one_file_state)) = 200 \<and>
   fst (get_metadata ''5-a.txt'' (snd (delete_file no_faults ''5-a.txt'' one_file_state)))
     = \<lparr>status = 404, body = Error ''File not found''\<rparr> \<and>
   fst (download ''5-a.txt'' (snd (delete_file no_faults ''5-a.txt'' one_file_state)))
     = \<lparr>status = 404, body = Error ''File not found''\<rparr> \<and>
   \<not> file_exists empty_state ''5-a.txt'' \<and>
   fst (patch_metadata ''5-a.txt'' (JObj []) empty_state)
     = \<lparr>status = 404, body = Error ''File not found''\<rparr>"
proof -
  have d: "status (fst (delete_file no_faults ''5-a.txt'' one_file_state)) = 200"
    and e: "file_exists one_file_state ''5-a.txt''"
    and n: "\<not> file_exists empty_state ''5-a.txt''"
    by (simp_all add: delete_file_def no_faults_def one_file_state_def empty_state_def
        file_exists_def json_res_def)
  from d delete_then_not_found [of no_faults "''5-a.txt''" one_file_state
      "fst (delete_file no_faults ''5-a.txt'' one_file_state)"
      "snd (delete_file no_faults ''5-a.txt'' one_file_state)"]
  have "get_metadata ''5-a.txt'' (snd (delete_file no_faults ''5-a.txt'' one_file_state))
      = (\<lparr>status = 404, body = Error ''File not found''\<rparr>,
         snd (delete_file no_faults ''5-a.txt'' one_file_state))"
    and "download ''5-a.txt'' (snd (delete_file no_faults ''5-a.txt'' one_file_state))
      = (\<lparr>status = 404, body = Error ''File not found''\<rparr>,
         snd (delete_file no_faults ''5-a.txt'' one_file_state))"
    by simp_all
  moreover from n delete_then_not_found [of no_faults "''5-a.txt''" empty_state _ _ "JObj []"]
  have "patch_metadata ''5-a.txt'' (JObj []) empty_state
      = (\<lparr>status = 404, body = Error ''File not found''\<rparr>, empty_state)"
    by simp
  ultimately show ?thesis using d e n by simp
qed

subsection \<open>Search: date bounds\<close>

lemma search_cong:
  assumes "\<And>file. search_filter B p file = search_filter B p' file"
  shows "search B f p s = search B f p' s"
proof -
  have "search_filter B p = search_filter B p'"
    by (rule ext) (rule assms)
  then show ?thesis
    unfolding search_def by (simp only:)
qed

lemma dateFrom_excludes_invalid:
  "date_parse B d = None \<Longrightarrow> dateFrom_excludes B (Some d) file = dateFrom_excludes B None file"
  by (simp add: dateFrom_excludes_def truthy_def)

lemma dateTo_excludes_invalid:
  "date_parse B d = None \<Longrightarrow> dateTo_excludes B (Some d) file = dateTo_excludes B None file"
  by (simp add: dateTo_excludes_def truthy_def)

lemma search_one_file_no_query:
  "search sample_builtins no_faults no_query one_file_state =
     (\<lparr>status = 200, body = Files [\<lparr>filename = ''5-a.txt'', meta = Some sample_metadata\<rparr>]\<rparr>,
      one_file_state)"
  by (simp add: search_def one_file_state_def readdirSync_def no_faults_def no_query_def
      with_metadata_def search_filter_def query_excludes_def type_excludes_def
      minSize_excludes_def maxSize_excludes_def dateFrom_excludes_def dateTo_excludes_def
      truthy_def json_res_def)

text \<open>
  Claim C1, as stated: when \<^verbatim>\<open>dateFrom\<close> (or \<^verbatim>\<open>dateTo\<close>) is supplied but is not a date,
  every record of the listing is excluded from the result. It fails: the comparison
  with an invalid date is false, \<^verbatim>\<open>return false\<close> is not taken, and the record stays in
  the result.
\<close>

theorem invalid_dateFrom_counterexample:
  "date_parse sample_builtins ''not a date'' = None \<and>
   search sample_builtins no_faults (no_query\<lparr>dateFrom := Some ''not a date''\<rparr>) one_file_state =
     (\<lparr>status = 200, body = Files [\<lparr>filename = ''5-a.txt'', meta = Some sample_metadata\<rparr>]\<rparr>,
      one_file_state)"
  by (simp add: search_def one_file_state_def readdirSync_def no_faults_def no_query_def
      with_metadata_def search_filter_def query_excludes_def type_excludes_def
      minSize_excludes_def maxSize_excludes_def dateFrom_excludes_def dateTo_excludes_def
      truthy_def json_res_def sample_builtins_def)

text \<open>
  Claim C1, amended: a \<^verbatim>\<open>dateFrom\<close> or \<^verbatim>\<open>dateTo\<close> that is supplied but is not a date
  excludes no record. Its comparison is false for every record, and the search answers
  exactly as it does when that bound is not supplied.
\<close>

theorem invalid_date_bound_excludes_nothing:
  assumes "date_parse B d = None"
  shows "\<not> dateFrom_excludes B (Some d) file \<and> \<not> dateTo_excludes B (Some d) file \<and>
         search B f (p\<lparr>dateFrom := Some d\<rparr>) s = search B f (p\<lparr>dateFrom := None\<rparr>) s \<and>
         search B f (p\<lparr>dateTo := Some d\<rparr>) s = search B f (p\<lparr>dateTo := None\<rparr>) s"
proof (intro conjI)
  show "\<not> dateFrom_excludes B (Some d) file" "\<not> dateTo_excludes B (Some d) file"
    using assms by (simp_all add: dateFrom_excludes_def dateTo_excludes_def)
  show "search B f (p\<lparr>dateFrom := Some d\<rparr>) s = search B f (p\<lparr>dateFrom := None\<rparr>) s"
    by (rule search_cong) (simp add: search_filter_def dateFrom_excludes_invalid [OF assms])
  show "search B f (p\<lparr>dateTo := Some d\<rparr>) s = search B f (p\<lparr>dateTo := None\<rparr>) s"
    by (rule search_cong) (simp add: search_filter_def dateTo_excludes_invalid [OF assms])
qed

theorem invalid_date_bound_excludes_nothing_witness:
  "date_parse sample_builtins ''not a date'' = None \<and>
   search sample_builtins no_faults (no_query\<lparr>dateFrom := Some ''not a date''\<rparr>) one_file_state =
     (\<lparr>status = 200, body = Files [\<lparr>filename = ''5-a.txt'', meta = Some sample_metadata\<rparr>]\<rparr>,
      one_file_state)"
proof -
  have h: "date_parse sample_builtins ''not a date'' = None"
    by (simp add: sample_builtins_def)
  have "no_query\<lparr>dateFrom := None\<rparr> = no_query" by (simp add: no_query_def)
  with invalid_date_bound_excludes_nothing [OF h, of _ no_faults no_query one_file_state]
    search_one_file_no_query h
  show ?thesis by simp
qed

subsection \<open>Search: size bounds\<close>











lemma minSize_excludes_nan:
  "parseInt m = None \<Longrightarrow> minSize_excludes (Some m) file = minSize_excludes None file"
  by (simp add: minSize_excludes_def truthy_def)

lemma maxSize_excludes_nan:
  "parseInt m = None \<Longrightarrow> maxSize_excludes (Some m) file = maxSize_excludes None file"
  by (simp add: maxSize_excludes_def truthy_def)





lemma parseInt_abc: "parseInt ''abc'' = None"
  by (simp add: parseInt_def is_white_space_def radix_digit_def digit_of_def)


text \<open>
  Claim C10. A \<^verbatim>\<open>minSize\<close> or \<^verbatim>\<open>maxSize\<close> that is supplied but that \<^verbatim>\<open>parseInt\<close> cannot
  read as an integer excludes no record: the comparison with \<^verbatim>\<open>NaN\<close> is false for every
  record, whatever its size, and the search answers exactly as it does when that bound
  is not supplied.
\<close>

theorem unparseable_size_bound_excludes_nothing:
  assumes "parseInt m = None"
  shows "\<not> minSize_excludes (Some m) file \<and> \<not> maxSize_excludes (Some m) file \<and>
         search B f (p\<lparr>minSize := Some m\<rparr>) s = search B f (p\<lparr>minSize := None\<rparr>) s \<and>
         search B f (p\<lparr>maxSize := Some m\<rparr>) s = search B f (p\<lparr>maxSize := None\<rparr>) s"
proof (intro conjI)
  show "\<not> minSize_excludes (Some m) file" "\<not> maxSize_excludes (Some m) file"
    using assms by (simp_all add: minSize_excludes_def maxSize_excludes_def)
  show "search B f (p\<lparr>minSize := Some m\<rparr>) s = search B f (p\<lparr>minSize := None\<rparr>) s"
    by (rule search_cong) (simp add: search_filter_def minSize_excludes_nan [OF assms])
  show "search B f (p\<lparr>maxSize := Some m\<rparr>) s = search B f (p\<lparr>maxSize := None\<rparr>) s"
    by (rule search_cong) (simp add: search_filter_def maxSize_excludes_nan [OF assms])
qed

theorem unparseable_size_bound_excludes_nothing_witness:
  "parseInt ''abc'' = None \<and>
   \<not> minSize_excludes (Some ''abc'') \<lparr>filename = ''5-a.txt'', meta = Some sample_metadata\<rparr> \<and>
   \<not> maxSize_excludes (Some ''abc'') \<lparr>filename = ''5-a.txt'', meta = Some sample_metadata\<rparr> \<and>
   search sample_builtins no_faults (no_query\<lparr>minSize := Some ''abc''\<rparr>) one_file_state =
     (\<lparr>status = 200, body = Files [\<lparr>filename = ''5-a.txt'', meta = Some sample_metadata\<rparr>]\<rparr>,
      one_file_state) \<and>
   search sample_builtins no_faults (no_query\<lparr>maxSize := Some ''abc''\<rparr>) one_file_state =
     (\<lparr>status = 200, body = Files [\<lparr>filename = ''5-a.txt'', meta = Some sample_metadata\<rparr>]\<rparr>,
      one_file_state)"
proof -
  have "no_query\<lparr>minSize := None\<rparr> = no_query" "no_query\<lparr>maxSize := None\<rparr> = no_query"
    by (simp_all add: no_query_def)
  with unparseable_size_bound_excludes_nothing [OF parseInt_abc,
      of "\<lparr>filename = ''5-a.txt'', meta = Some sample_metadata\<rparr>"
         sample_builtins no_faults no_query one_file_state]
    search_one_file_no_query parseInt_abc
  show ?thesis by simp
qed





subsection \<open>Upload\<close>

lemma diskStorage_written:
  assumes "diskStorage f now part s = (Inr file, s1)"
  shows "file_filename file = show_nat now @ ''-'' @ originalname part"
    and "file_path file = ''uploads/'' @ file_filename file"
    and "file_originalname file = originalname part"
    and "fileMetadata s1 = fileMetadata s"
    and "uploads s1 = Some (AList.update (file_filename file) (written part)
           (case uploads s of None \<Rightarrow> [] | Some d \<Rightarrow> d))"
    and "file_exists s1 (file_filename file)"
  using assms
  by (auto simp: diskStorage_def Let_def file_exists_def update_conv'
      split: option.splits sum.splits)

lemma file_part_Some: "file_part req = Some part \<longleftrightarrow> payload req = FileField part"
  by (simp add: file_part_def split: file_parts.splits)


lemma upload_without_file_status:
  "file_part req = None \<Longrightarrow> status (fst (upload B f now req s)) \<noteq> 200"
  by (cases "payload req")
    (auto simp: file_part_def upload_def upload_handler_def status_json_def
      split: option.splits prod.splits sum.splits)

lemma upload_handler_parse_fails:
  assumes "json_parse B m = None" and "m \<noteq> []"
  shows "upload_handler B f (Some file) (Some m) s =
           (\<lparr>status = 500, body = Error ''Error uploading file''\<rparr>, s)"
  using assms
  by (simp add: upload_handler_def truthy_def status_json_def split: sum.splits)

lemma show_nat_5: "show_nat 5 = ''5''"
  by code_simp

lemma diskStorage_sample:
  "diskStorage no_faults 5 sample_part empty_state =
     (Inr sample_file, \<lparr>uploads = Some [(''5-a.txt'', sample_stats)], fileMetadata = Map.empty\<rparr>)"
  by (simp add: diskStorage_def no_faults_def sample_part_def empty_state_def sample_file_def
      show_nat_5 Let_def)


lemma upload_tagged_sample:
  "upload sample_builtins no_faults 5 tagged_upload empty_state =
     (\<lparr>status = 200, body = Uploaded ''File uploaded successfully'' ''5-a.txt'' sample_metadata\<rparr>,
      one_file_state)"
proof -
  have "upload sample_builtins no_faults 5 tagged_upload empty_state =
      upload_handler sample_builtins no_faults (Some sample_file) (metadata_field tagged_upload)
        \<lparr>uploads = Some [(''5-a.txt'', sample_stats)], fileMetadata = Map.empty\<rparr>"
    by (simp add: upload_def tagged_upload_def diskStorage_sample)
  also have "\<dots> =
      (\<lparr>status = 200, body = Uploaded ''File uploaded successfully'' ''5-a.txt'' sample_metadata\<rparr>,
       one_file_state)"
    by (simp add: upload_handler_def tagged_upload_def
        sample_file_def getFileMetadata_def statSync_def no_faults_def extname_def basename_def
        sample_stats_def truthy_def sample_builtins_def json_res_def file_info.defs
        sample_metadata_def one_file_state_def Let_def)
  finally show ?thesis .
qed




text \<open>
  Claim C9. When the file payload of an upload has been written to disk and the
  \<^verbatim>\<open>metadata\<close> field fails to parse as JSON, the answer is the 500 error response, the
  metadata store is exactly what it was before (no entry is added for the stored
  filename), and the written file is still on disk: nothing rolls the write back.
\<close>

theorem failed_upload_leaves_orphan:
  assumes "file_part req = Some part" and "diskStorage f now part s = (Inr mf, s1)"
    and "metadata_field req = Some m" and "m \<noteq> []" and "json_parse B m = None"
  shows "fst (upload B f now req s) = \<lparr>status = 500, body = Error ''Error uploading file''\<rparr> \<and>
         fileMetadata (snd (upload B f now req s)) = fileMetadata s \<and>
         file_exists (snd (upload B f now req s)) (file_filename mf) \<and>
         snd (upload B f now req s) = s1"
  using assms diskStorage_written [OF assms(2)]
  by (simp add: upload_def file_part_Some upload_handler_parse_fails)

theorem failed_upload_leaves_orphan_witness:
  "file_part malformed_upload = Some sample_part \<and>
   diskStorage no_faults 5 sample_part empty_state =
     (Inr sample_file, \<lparr>uploads = Some [(''5-a.txt'', sample_stats)], fileMetadata = Map.empty\<rparr>) \<and>
   metadata_field malformed_upload = Some ''{oops'' \<and> ''{oops'' \<noteq> [] \<and>
   json_parse sample_builtins ''{oops'' = None \<and>
   status (fst (upload sample_builtins no_faults 5 malformed_upload empty_state)) = 500 \<and>
   fileMetadata (snd (upload sample_builtins no_faults 5 malformed_upload empty_state)) ''5-a.txt''
     = None \<and>
   file_exists (snd (upload sample_builtins no_faults 5 malformed_upload empty_state)) ''5-a.txt''"
proof -
  have h: "file_part malformed_upload = Some sample_part"
    "metadata_field malformed_upload = Some ''{oops''"
    "''{oops'' \<noteq> []"
    "json_parse sample_builtins ''{oops'' = None"
    by (simp_all add: malformed_upload_def sample_builtins_def file_part_def)
  have fn: "file_filename sample_file = ''5-a.txt''"
    by (simp add: sample_file_def)
  have em: "fileMetadata empty_state ''5-a.txt'' = None"
    by (simp add: empty_state_def)
  note t = failed_upload_leaves_orphan [OF h(1) diskStorage_sample h(2,3,4)]
  from t have a: "status (fst (upload sample_builtins no_faults 5 malformed_upload empty_state)) = 500"
    by simp
  from t have b: "fileMetadata (snd (upload sample_builtins no_faults 5 malformed_upload empty_state))
      = fileMetadata empty_state"
    by (rule conjunct1 [OF conjunct2])
  from t have c: "file_exists (snd (upload sample_builtins no_faults 5 malformed_upload empty_state))
      (file_filename sample_file)"
    by (rule conjunct1 [OF conjunct2 [OF conjunct2]])
  from b em have b': "fileMetadata (snd (upload sample_builtins no_faults 5 malformed_upload empty_state))
      ''5-a.txt'' = None"
    by simp
  from c fn have c': "file_exists (snd (upload sample_builtins no_faults 5 malformed_upload empty_state))
      ''5-a.txt''"
    by simp
  from h diskStorage_sample a b' c' show ?thesis
    by blast
qed

text \<open>
  Claim C4. After an upload into an empty store (no uploads directory, or an empty one)
  that answered 200, a list request that can read the directory returns exactly one
  entry: its \<^verbatim>\<open>filename\<close> is the stored filename that the upload returned, and its
  \<^verbatim>\<open>originalName\<close> is the name the client gave the file.
\<close>

theorem upload_then_list:
  assumes "uploads s = None \<or> uploads s = Some []"
    and "upload B f now req s = (r, s')" and "status r = 200"
    and "readdir_error f' = None"
  shows "\<exists>part md. file_part req = Some part \<and>
           body r = Uploaded ''File uploaded successfully'' (show_nat now @ ''-'' @ originalname part) md \<and>
           originalName md = originalname part \<and>
           list_files f' s' =
             (\<lparr>status = 200,
               body = Files [\<lparr>filename = show_nat now @ ''-'' @ originalname part, meta = Some md\<rparr>]\<rparr>,
              s')"
proof (cases "file_part req")
  case None
  from assms(2) have "fst (upload B f now req s) = r"
    by simp
  with None assms(3) upload_without_file_status [of req B f now s] show ?thesis
    by simp
next
  case (Some part)
  show ?thesis
  proof (cases "diskStorage f now part s")
    case (Pair res s1)
    show ?thesis
    proof (cases res)
      case (Inl e)
      with Some Pair assms(2,3) show ?thesis
        by (auto simp: upload_def file_part_Some)
    next
      case (Inr mf)
      note w = diskStorage_written [OF Pair [unfolded Inr]]
      from assms(1) w(5) have u1: "uploads s1 = Some [(file_filename mf, written part)]"
        by auto
      from Some Pair Inr assms(2)
      have h: "upload_handler B f (Some mf) (metadata_field req) s1 = (r, s')"
        by (simp add: upload_def file_part_Some)
      with assms(3) obtain md where
        r: "r = json_res (Uploaded ''File uploaded successfully'' (file_filename mf) md)"
        and s': "s' = s1\<lparr>fileMetadata := (fileMetadata s1)(file_filename mf \<mapsto> md)\<rparr>"
        and on: "originalName md = file_originalname mf"
        by (auto simp: upload_handler_def status_json_def Let_def file_info.defs
            split: sum.splits option.splits if_splits)
      have "list_files f' s' =
          (\<lparr>status = 200, body = Files [\<lparr>filename = file_filename mf, meta = Some md\<rparr>]\<rparr>, s')"
        using assms(4) u1
        by (simp add: list_files_def s' readdirSync_def with_metadata_def json_res_def)
      with Some r on w(1,3) show ?thesis
        by (simp add: json_res_def)
    qed
  qed
qed

theorem upload_then_list_witness:
  "(uploads empty_state = None \<or> uploads empty_state = Some []) \<and>
   status (fst (upload sample_builtins no_faults 5 tagged_upload empty_state)) = 200 \<and>
   readdir_error no_faults = None \<and>
   (\<exists>part md. file_part tagged_upload = Some part \<and>
      body (fst (upload sample_builtins no_faults 5 tagged_upload empty_state)) =
        Uploaded ''File uploaded successfully'' (show_nat 5 @ ''-'' @ originalname part) md \<and>
      originalName md = originalname part \<and>
      list_files no_faults (snd (upload sample_builtins no_faults 5 tagged_upload empty_state)) =
        (\<lparr>status = 200,
          body = Files [\<lparr>filename = show_nat 5 @ ''-'' @ originalname part, meta = Some md\<rparr>]\<rparr>,
         snd (upload sample_builtins no_faults 5 tagged_upload empty_state)))"
proof -
  have h1: "uploads empty_state = None \<or> uploads empty_state = Some []"
    by (simp add: empty_state_def)
  have h2: "upload sample_builtins no_faults 5 tagged_upload empty_state =
       (fst (upload sample_builtins no_faults 5 tagged_upload empty_state),
        snd (upload sample_builtins no_faults 5 tagged_upload empty_state))"
    by simp
  have h3: "status (fst (upload sample_builtins no_faults 5 tagged_upload empty_state)) = 200"
    by (simp add: upload_tagged_sample)
  have h4: "readdir_error no_faults = None"
    by (simp add: no_faults_def)
  from upload_then_list [OF h1 h2 h3 h4] h1 h3 h4 show ?thesis
    by blast
qed

subsection \<open>Metadata update\<close>

lemma map_of_assign_props:
  "map_of (assign_props target src) = map_of target ++ map_of (rev src)"
  unfolding assign_props_def
proof (induction src arbitrary: target)
  case Nil
  show ?case by simp
next
  case (Cons kv src)
  obtain k v where kv: "kv = (k, v)" by (cases kv)
  have "map_of (fold (\<lambda>(k, v). AList.update k v) src (AList.update k v target))
      = map_of (AList.update k v target) ++ map_of (rev src)"
    by (rule Cons.IH)
  also have "\<dots> = map_of target ++ map_of (rev (kv # src))"
    by (simp add: kv update_conv' map_add_def fun_eq_iff split: option.splits)
  finally show ?case by (simp add: kv)
qed

lemma map_of_rev_distinct:
  assumes "distinct (map fst kvs)"
  shows "map_of (rev kvs) = map_of kvs"
proof (rule ext)
  fix k
  have d: "distinct (map fst (rev kvs))"
    using assms by (simp only: rev_map [symmetric] distinct_rev)
  show "map_of (rev kvs) k = map_of kvs k"
  proof (cases "map_of kvs k")
    case None
    then have "k \<notin> fst ` set kvs"
      by (simp add: map_of_eq_None_iff)
    then have "map_of (rev kvs) k = None"
      by (simp add: map_of_eq_None_iff)
    with None show ?thesis by simp
  next
    case (Some v)
    then have "(k, v) \<in> set (rev kvs)"
      by (simp add: map_of_SomeD)
    with d have "map_of (rev kvs) k = Some v"
      by (simp only: map_of_eq_Some_iff)
    with Some show ?thesis by simp
  qed
qed

text \<open>
  Claim C5. For a name with an existing file and metadata record, the update answers 200
  with the updated record and stores it. Its \<^verbatim>\<open>customMetadata\<close> is an object that maps
  every key of the request body to the body's value and every other key to the value it
  had before; \<^verbatim>\<open>size\<close>, \<^verbatim>\<open>created\<close>, \<^verbatim>\<open>modified\<close>, \<^verbatim>\<open>type\<close> and \<^verbatim>\<open>originalName\<close> are
  unchanged. (The keys of a JavaScript object are distinct.)
\<close>

theorem patch_merges_custom_metadata:
  assumes "file_exists s name" and "fileMetadata s name = Some cur"
    and "distinct (map fst (own_props (customMetadata cur)))"
    and "distinct (map fst (own_props req_body))"
  shows "\<exists>upd merged.
           patch_metadata name req_body s =
             (\<lparr>status = 200, body = Metadata upd\<rparr>,
              s\<lparr>fileMetadata := (fileMetadata s)(name \<mapsto> upd)\<rparr>) \<and>
           customMetadata upd = JObj merged \<and>
           (\<forall>k. map_of merged k =
              (case map_of (own_props req_body) k of
                 Some v \<Rightarrow> Some v
               | None \<Rightarrow> map_of (own_props (customMetadata cur)) k)) \<and>
           size_m upd = size_m cur \<and> created upd = created cur \<and>
           modified upd = modified cur \<and> type_m upd = type_m cur \<and>
           originalName upd = originalName cur"
proof -
  let ?merged = "assign_props (assign_props [] (own_props (customMetadata cur))) (own_props req_body)"
  let ?upd = "cur\<lparr>customMetadata := JObj ?merged\<rparr>"
  have p: "patch_metadata name req_body s =
      (\<lparr>status = 200, body = Metadata ?upd\<rparr>, s\<lparr>fileMetadata := (fileMetadata s)(name \<mapsto> ?upd)\<rparr>)"
    using assms(1,2) by (simp add: patch_metadata_def spread2_def json_res_def Let_def)
  have m: "map_of ?merged k =
      (case map_of (own_props req_body) k of
         Some v \<Rightarrow> Some v
       | None \<Rightarrow> map_of (own_props (customMetadata cur)) k)" for k
    by (simp add: map_of_assign_props map_of_rev_distinct assms(3,4) map_add_def)
  show ?thesis
    using p m by (intro exI [of _ ?upd] exI [of _ ?merged]) simp
qed

theorem patch_merges_custom_metadata_witness:
  "file_exists one_file_state ''5-a.txt'' \<and>
   fileMetadata one_file_state ''5-a.txt'' = Some sample_metadata \<and>
   distinct (map fst (own_props (customMetadata sample_metadata))) \<and>
   distinct (map fst (own_props (JObj [(''tag'', JStr ''y''), (''k'', JNum 1)]))) \<and>
   (\<exists>upd merged.
      patch_metadata ''5-a.txt'' (JObj [(''tag'', JStr ''y''), (''k'', JNum 1)]) one_file_state =
        (\<lparr>status = 200, body = Metadata upd\<rparr>,
         one_file_state\<lparr>fileMetadata := (fileMetadata one_file_state)(''5-a.txt'' \<mapsto> upd)\<rparr>) \<and>
      customMetadata upd = JObj merged \<and>
      map_of merged ''tag'' = Some (JStr ''y'') \<and> map_of merged ''k'' = Some (JNum 1) \<and>
      size_m upd = 3 \<and> type_m upd = ''txt'' \<and> originalName upd = ''a.txt'')"
proof -
  have h: "file_exists one_file_state ''5-a.txt''"
    "fileMetadata one_file_state ''5-a.txt'' = Some sample_metadata"
    "distinct (map fst (own_props (customMetadata sample_metadata)))"
    "distinct (map fst (own_props (JObj [(''tag'', JStr ''y''), (''k'', JNum 1)])))"
    by (simp_all add: one_file_state_def file_exists_def sample_metadata_def)
  from patch_merges_custom_metadata [OF h]
  obtain upd merged where
    "patch_metadata ''5-a.txt'' (JObj [(''tag'', JStr ''y''), (''k'', JNum 1)]) one_file_state =
        (\<lparr>status = 200, body = Metadata upd\<rparr>,
         one_file_state\<lparr>fileMetadata := (fileMetadata one_file_state)(''5-a.txt'' \<mapsto> upd)\<rparr>)"
    "customMetadata upd = JObj merged"
    "\<forall>k. map_of merged k =
        (case map_of (own_props (JObj [(''tag'', JStr ''y''), (''k'', JNum 1)])) k of
           Some v \<Rightarrow> Some v
         | None \<Rightarrow> map_of (own_props (customMetadata sample_metadata)) k)"
    "size_m upd = size_m sample_metadata" "type_m upd = type_m sample_metadata"
    "originalName upd = originalName sample_metadata"
    by blast
  then show ?thesis
    using h by (intro conjI exI [of _ upd] exI [of _ merged]) (simp_all add: sample_metadata_def)
qed

subsection \<open>Search: files without a metadata record\<close>

lemma filter_js_throws:
  "x \<in> set xs \<Longrightarrow> cb x = Inl e \<Longrightarrow> \<exists>e'. filter_js cb xs = Inl e'"
  by (induction xs) (auto split: sum.splits)

lemma search_orphan_throws:
  assumes "uploads s = Some d" and "readdir_error f = None"
    and "name \<in> fst ` set d" and "fileMetadata s name = None"
    and "q \<noteq> []" and "\<not> includes_js (toLowerCase name) (toLowerCase q)"
  shows "search B f (p\<lparr>query := Some q\<rparr>) s =
           (\<lparr>status = 500, body = Error ''Error searching files''\<rparr>, s)"
proof -
  have qx: "query_excludes B (Some q) (with_metadata s name) = Inl TypeError"
    using assms(4,5,6) by (simp add: query_excludes_def truthy_def with_metadata_def)
  have thr: "search_filter B (p\<lparr>query := Some q\<rparr>) (with_metadata s name) = Inl TypeError"
    by (simp add: search_filter_def qx)
  have "name \<in> set (map fst d)"
    using assms(3) by simp
  then have "with_metadata s name \<in> with_metadata s ` set (map fst d)"
    by (rule imageI)
  then have mem: "with_metadata s name \<in> set (map (with_metadata s) (map fst d))"
    by (simp only: set_map)
  from mem thr have "\<exists>e'. filter_js (search_filter B (p\<lparr>query := Some q\<rparr>))
      (map (with_metadata s) (map fst d)) = Inl e'"
    by (rule filter_js_throws)
  then obtain e' where
    "filter_js (search_filter B (p\<lparr>query := Some q\<rparr>)) (map (with_metadata s) (map fst d)) = Inl e'"
    by (rule exE)
  with assms(1,2) show ?thesis
    by (simp add: search_def readdirSync_def status_json_def)
qed

text \<open>
  Claim C2 says that a file of the directory without a record in the metadata store
  never makes the search fail. On a directory holding one such file and a query that is
  not part of its name, the search answers 500: the filter callback calls
  \<^verbatim>\<open>toLowerCase\<close> on \<^verbatim>\<open>JSON.stringify(undefined)\<close>, which is \<^verbatim>\<open>undefined\<close>.
\<close>

theorem search_orphan_query_500:
  "search B no_faults (no_query\<lparr>query := Some ''zzz''\<rparr>) orphan_state =
     (\<lparr>status = 500, body = Error ''Error searching files''\<rparr>, orphan_state)"
  by (simp add: search_def orphan_state_def no_faults_def readdirSync_def with_metadata_def
      search_filter_def query_excludes_def truthy_def no_query_def toLowerCase_def
      lower_char_def status_json_def)

end
